theory Spec2Isabelle
  imports Main
begin

section \<open>Values, session storage, requests\<close>

text \<open>
  The values kept in \<^verbatim>\<open>app.storage.user\<close>: tokens and paths are Python strings, and a
  key may hold \<^verbatim>\<open>None\<close>. A Python string is kept as the sequence of its UTF-8 bytes, so
  that \<^verbatim>\<open>.encode()\<close> is the identity and header values are strings as well.
\<close>

datatype pyval = PNone | PStr string

text \<open>\<^verbatim>\<open>str(v)\<close>, as the f-string of the bearer header applies it.\<close>

definition str :: "pyval \<Rightarrow> string" where
  "str v = (case v of PNone \<Rightarrow> ''None'' | PStr s \<Rightarrow> s)"

text \<open>An instance of Python's \<^verbatim>\<open>Exception\<close>, with the text \<^verbatim>\<open>str(e)\<close> gives.\<close>

datatype exn = Exception string

definition exn_str :: "exn \<Rightarrow> string" where
  "exn_str e = (case e of Exception m \<Rightarrow> m)"

text \<open>\<^verbatim>\<open>app.storage.user\<close> is a dictionary from keys to values.\<close>

type_synonym storage = "string \<rightharpoonup> pyval"

text \<open>\<^verbatim>\<open>d.get(key, default)\<close>.\<close>

definition storage_get :: "storage \<Rightarrow> string \<Rightarrow> pyval \<Rightarrow> pyval" where
  "storage_get d k dflt = (case d k of None \<Rightarrow> dflt | Some v \<Rightarrow> v)"

text \<open>\<^verbatim>\<open>s.removeprefix(p)\<close>: \<^verbatim>\<open>s[len(p):]\<close> when \<^verbatim>\<open>s\<close> starts with \<^verbatim>\<open>p\<close>, else \<^verbatim>\<open>s\<close>.\<close>

definition removeprefix :: "string \<Rightarrow> string \<Rightarrow> string" where
  "removeprefix s p = (if take (length p) s = p then drop (length p) s else s)"

text \<open>\<^verbatim>\<open>os.path.join\<close> called with one argument returns that argument.\<close>

definition os_path_join :: "string \<Rightarrow> string" where
  "os_path_join a = a"

text \<open>
  What the middleware reads of a request: \<^verbatim>\<open>request.url.path\<close>,
  \<^verbatim>\<open>request.scope["root_path"]\<close> (the mount always sets it), the list
  \<^verbatim>\<open>request.scope["headers"]\<close> of (name, value) pairs, and the method
  \<^verbatim>\<open>request.url_for\<close> from a route name to its URL (the one name it is called with,
  \<^verbatim>\<open>login_page\<close>, is a route this file registers).
\<close>

record request =
  url_path :: string
  root_path :: string
  headers :: "(string \<times> string) list"
  url_for :: "string \<Rightarrow> string"

text \<open>
  The functions imported from \<^verbatim>\<open>.app.auth\<close>. Each call either raises or returns;
  \<^typ>\<open>'u\<close> is the type of user objects (every user object is truthy).
\<close>

record 'u app_auth =
  user_authenticate :: "string \<Rightarrow> string \<Rightarrow> exn + 'u option"
  user_check_token :: "pyval \<Rightarrow> exn + bool"
  user_create :: "string \<Rightarrow> string \<Rightarrow> exn + 'u option"
  user_create_token :: "'u \<Rightarrow> exn + string option"

section \<open>Routes\<close>

definition MOUNT_PATH :: string where
  "MOUNT_PATH = ''/gui''"

definition INDEX_PATH :: string where
  "INDEX_PATH = ''/gui''"

definition LOGIN_PATH :: string where
  "LOGIN_PATH = ''/gui/login''"

definition REGISTER_PATH :: string where
  "REGISTER_PATH = ''/gui/register''"

definition UNRESTRICTED_PAGE_ROUTES :: "string list" where
  "UNRESTRICTED_PAGE_ROUTES = [LOGIN_PATH, REGISTER_PATH]"

text \<open>\<^verbatim>\<open>login_page.__name__\<close>.\<close>

definition login_page_name :: string where
  "login_page_name = ''login_page''"

text \<open>
  The generator \<^verbatim>\<open>client_page_routes\<close> of the middleware, over the values of
  \<^verbatim>\<open>Client.page_routes\<close>; it is built for each request and read by one \<^verbatim>\<open>in\<close>.
\<close>

definition client_page_routes :: "string list \<Rightarrow> string list" where
  "client_page_routes page_routes = map (\<lambda>x. os_path_join (MOUNT_PATH @ x)) page_routes"

text \<open>The routes the four \<^verbatim>\<open>@ui.page\<close> decorators of the file register, in order.\<close>

definition registered_page_routes :: "string list" where
  "registered_page_routes = [''/'', ''/demo'', ''/login'', ''/register'']"

section \<open>The middleware\<close>

datatype response = RedirectResponse string

text \<open>
  How the middleware ends: it returns a response of its own, or it returns what
  \<^verbatim>\<open>call_next(request)\<close> returns, the request being the one of the result.
\<close>

datatype outcome = Return response | Call_next

text \<open>
  The end of the middleware, from the comment \<^verbatim>\<open># Remove original authorization header\<close>
  on: the entries named \<^verbatim>\<open>b"authorization"\<close> are filtered out of the scope's headers,
  the bearer header is appended, and the request goes to \<^verbatim>\<open>call_next\<close>.
\<close>

definition forward :: "request \<Rightarrow> storage \<Rightarrow> outcome \<times> request \<times> storage" where
  "forward request storage =
     (Call_next,
      request\<lparr>headers :=
        filter (\<lambda>e. \<not> fst e = ''authorization'') (headers request)
        @ [(''authorization'', ''Bearer '' @ str (storage_get storage ''auth_token'' PNone))]\<rparr>,
      storage)"

text \<open>
  \<^verbatim>\<open>AuthMiddleware\<close>. The result holds how the middleware ends, the request with its
  scope as the middleware leaves it, and the session storage as it leaves it. The token
  check is the first thing the middleware does and it stands under no \<^verbatim>\<open>try\<close>: when
  it raises, nothing has been written and the exception is the result.
\<close>

definition AuthMiddleware ::
  "'u app_auth \<Rightarrow> string list \<Rightarrow> request \<Rightarrow> storage \<Rightarrow> exn + (outcome \<times> request \<times> storage)" where
  "AuthMiddleware auth page_routes request storage =
     (case user_check_token auth (storage_get storage ''auth_token'' PNone) of
        Inl e \<Rightarrow> Inl e
      | Inr ok \<Rightarrow>
          if \<not> ok then
            if url_path request \<in> set (client_page_routes page_routes)
                 \<and> url_path request \<notin> set UNRESTRICTED_PAGE_ROUTES
            then
              Inr (Return (RedirectResponse (url_for request login_page_name)),
                   request,
                   storage(''referrer_path'' \<mapsto>
                     PStr (removeprefix (url_path request) (root_path request))))
            else Inr (forward request storage)
          else Inr (forward request storage))"

text \<open>Whether a result of the middleware is a redirect it answers with.\<close>

definition is_redirect :: "exn + (outcome \<times> request \<times> storage) \<Rightarrow> bool" where
  "is_redirect r = (case r of Inr (Return (RedirectResponse u), _, _) \<Rightarrow> True | _ \<Rightarrow> False)"

section \<open>The login and registration pages\<close>

text \<open>The elements a page function creates, in the order of creation.\<close>

datatype element =
  Card | Input string | Button string | Separator | Row | Label string | Link string string

text \<open>What a handler does to the browser: \<^verbatim>\<open>ui.notify\<close> (with its colour, when given)
  and \<^verbatim>\<open>ui.navigate.to\<close> with a path.\<close>

datatype ui_action = Notify string "string option" | NavigateTo string

text \<open>
  \<^verbatim>\<open>ui.navigate.to(target)\<close> with a value read from the session storage: a string is
  the path to open; \<^verbatim>\<open>None\<close> is no target, and the toolkit raises a \<^verbatim>\<open>TypeError\<close>.
\<close>

definition navigate_to :: "pyval \<Rightarrow> exn + ui_action" where
  "navigate_to target =
     (case target of
        PStr path \<Rightarrow> Inr (NavigateTo path)
      | PNone \<Rightarrow> Inl (Exception ''Invalid target type: <class 'NoneType'>''))"

definition login_form :: "element list" where
  "login_form =
     [Card, Input ''email'', Input ''password'', Button ''Continue'', Separator, Row,
      Label ''New around here?'', Link ''Create account'' ''/register'']"

text \<open>
  \<^verbatim>\<open>login_page\<close>: the response it returns (\<^verbatim>\<open>None\<close> when it falls off its end) and the
  elements it has created.
\<close>

definition login_page :: "'u app_auth \<Rightarrow> storage \<Rightarrow> exn + (response option \<times> element list)" where
  "login_page auth storage =
     (case user_check_token auth (storage_get storage ''auth_token'' PNone) of
        Inl e \<Rightarrow> Inl e
      | Inr ok \<Rightarrow>
          if ok then Inr (Some (RedirectResponse INDEX_PATH), [])
          else Inr (None, login_form))"

text \<open>
  \<^verbatim>\<open>token = user and await user_create_token(user)\<close>: \<^verbatim>\<open>None\<close> for no user, without a
  call of the Auth Service.
\<close>

definition token_of_user :: "'u app_auth \<Rightarrow> 'u option \<Rightarrow> exn + string option" where
  "token_of_user auth user = (case user of None \<Rightarrow> Inr None | Some u \<Rightarrow> user_create_token auth u)"

text \<open>
  A handler ends normally, with its actions on the browser and the session storage
  afterwards, or with an exception and the session storage as it is when the exception
  is raised.
\<close>

type_synonym handler_result = "(exn \<times> storage) + (ui_action list \<times> storage)"

text \<open>
  The branch \<^verbatim>\<open>if token is not None\<close>, which \<^verbatim>\<open>try_login\<close> and \<^verbatim>\<open>try_register\<close> share:
  the token is stored first, then the referrer path (or \<^verbatim>\<open>"/"\<close> when the key is absent)
  is navigated to.
\<close>

definition store_token :: "string \<Rightarrow> storage \<Rightarrow> handler_result" where
  "store_token token storage =
     (let storage' = storage(''auth_token'' \<mapsto> PStr token)
      in case navigate_to (storage_get storage' ''referrer_path'' (PStr ''/'')) of
           Inl e \<Rightarrow> Inl (e, storage')
         | Inr action \<Rightarrow> Inr ([action], storage'))"

text \<open>\<^verbatim>\<open>try_login\<close>, with the values of the two inputs.\<close>

definition try_login ::
  "'u app_auth \<Rightarrow> string \<Rightarrow> string \<Rightarrow> storage \<Rightarrow> handler_result" where
  "try_login auth email password storage =
     (case user_authenticate auth email password of
        Inl e \<Rightarrow> Inl (e, storage)
      | Inr user \<Rightarrow>
          (case token_of_user auth user of
             Inl e \<Rightarrow> Inl (e, storage)
           | Inr (Some token) \<Rightarrow> store_token token storage
           | Inr None \<Rightarrow>
               Inr ([Notify ''email or password wrong!'' (Some ''negative'')], storage)))"

text \<open>\<^verbatim>\<open>try_register\<close>: only the call of \<^verbatim>\<open>user_create\<close> stands under the \<^verbatim>\<open>try\<close>.\<close>

definition try_register ::
  "'u app_auth \<Rightarrow> string \<Rightarrow> string \<Rightarrow> storage \<Rightarrow> handler_result" where
  "try_register auth email password storage =
     (case user_create auth email password of
        Inl e \<Rightarrow> Inr ([Notify (exn_str e) None], storage)
      | Inr user \<Rightarrow>
          (case token_of_user auth user of
             Inl e \<Rightarrow> Inl (e, storage)
           | Inr (Some token) \<Rightarrow> store_token token storage
           | Inr None \<Rightarrow> Inr ([], storage)))"

section \<open>Examples\<close>

text \<open>
  An Auth Service for the examples: one account, one token it accepts, and a second
  registration of the account's email refused with an exception.
\<close>

definition example_auth :: "string app_auth" where
  "example_auth =
     \<lparr>user_authenticate = (\<lambda>email password.
        Inr (if email = ''a@b.c'' \<and> password = ''pw'' then Some email else None)),
      user_check_token = (\<lambda>tok. Inr (tok = PStr ''tok1'')),
      user_create = (\<lambda>email password.
        if email = ''a@b.c'' then Inl (Exception ''REGISTER_USER_ALREADY_EXISTS'')
        else Inr (Some email)),
      user_create_token = (\<lambda>u. Inr (Some ''tok1''))\<rparr>"

definition example_url_for :: "string \<Rightarrow> string" where
  "example_url_for name =
     (if name = ''login_page'' then ''http://localhost:8080/gui/login'' else '''')"

definition example_request :: "string \<Rightarrow> (string \<times> string) list \<Rightarrow> request" where
  "example_request p hs =
     \<lparr>url_path = p, root_path = ''/gui'', headers = hs, url_for = example_url_for\<rparr>"


section \<open>The forwarded request\<close>

lemma AuthMiddleware_Call_next:
  assumes "AuthMiddleware auth page_routes request storage = Inr (Call_next, request', storage')"
  shows "request' = request\<lparr>headers :=
           filter (\<lambda>e. \<not> fst e = ''authorization'') (headers request)
           @ [(''authorization'', ''Bearer '' @ str (storage_get storage ''auth_token'' PNone))]\<rparr>"
    and "storage' = storage"
  using assms by (auto simp: AuthMiddleware_def forward_def split: sum.splits if_splits)

text \<open>
  C3. Whenever the middleware hands the request to the next stage, the request's
  header list holds exactly one entry named authorization, however many the inbound
  request had, and its value is Bearer followed by the session's auth_token, or the
  literal Bearer None when the session holds no token.
\<close>

theorem AuthMiddleware_one_authorization:
  assumes "AuthMiddleware auth page_routes request storage = Inr (Call_next, request', storage')"
  shows "filter (\<lambda>e. fst e = ''authorization'') (headers request')
           = [(''authorization'',
               ''Bearer '' @ (case storage ''auth_token'' of
                                Some (PStr t) \<Rightarrow> t | _ \<Rightarrow> ''None''))]
         \<and> length (filter (\<lambda>e. fst e = ''authorization'') (headers request')) = 1"
proof -
  have "filter (\<lambda>e. fst e = ''authorization'')
          (filter (\<lambda>e. \<not> fst e = ''authorization'') hs) = []" for hs :: "(string \<times> string) list"
    by (induction hs) auto
  moreover have "str (storage_get storage ''auth_token'' PNone)
      = (case storage ''auth_token'' of Some (PStr t) \<Rightarrow> t | _ \<Rightarrow> ''None'')"
    by (simp add: str_def storage_get_def split: option.splits pyval.splits)
  ultimately show ?thesis
    using AuthMiddleware_Call_next(1) [OF assms] by simp
qed

theorem AuthMiddleware_one_authorization_witness:
  "AuthMiddleware example_auth registered_page_routes
     (example_request ''/gui/'' [(''authorization'', ''Basic x''), (''host'', ''h''),
                                 (''authorization'', ''Bearer old'')])
     [''auth_token'' \<mapsto> PStr ''tok1'']
   = Inr (Call_next,
          example_request ''/gui/'' [(''host'', ''h''), (''authorization'', ''Bearer tok1'')],
          [''auth_token'' \<mapsto> PStr ''tok1''])
   \<and> filter (\<lambda>e. fst e = ''authorization'')
       (headers (example_request ''/gui/''
          [(''host'', ''h''), (''authorization'', ''Bearer tok1'')]))
     = [(''authorization'', ''Bearer tok1'')]"
proof -
  have run: "AuthMiddleware example_auth registered_page_routes
     (example_request ''/gui/'' [(''authorization'', ''Basic x''), (''host'', ''h''),
                                 (''authorization'', ''Bearer old'')])
     [''auth_token'' \<mapsto> PStr ''tok1'']
   = Inr (Call_next,
          example_request ''/gui/'' [(''host'', ''h''), (''authorization'', ''Bearer tok1'')],
          [''auth_token'' \<mapsto> PStr ''tok1''])"
    by (simp add: AuthMiddleware_def forward_def example_auth_def example_request_def
        storage_get_def str_def)
  show ?thesis
    using AuthMiddleware_one_authorization [OF run] run by simp
qed

section \<open>The branches of the middleware\<close>

lemma AuthMiddleware_raises:
  assumes "user_check_token auth (storage_get storage ''auth_token'' PNone) = Inl e"
  shows "AuthMiddleware auth page_routes request storage = Inl e"
  using assms by (simp add: AuthMiddleware_def forward_def)

lemma AuthMiddleware_Return:
  assumes "AuthMiddleware auth page_routes request storage = Inr (Return resp, request', storage')"
  shows "user_check_token auth (storage_get storage ''auth_token'' PNone) = Inr False"
    and "url_path request \<in> set (client_page_routes page_routes)"
    and "url_path request \<notin> set UNRESTRICTED_PAGE_ROUTES"
    and "resp = RedirectResponse (url_for request login_page_name)"
    and "request' = request"
    and "storage' = storage(''referrer_path'' \<mapsto>
           PStr (removeprefix (url_path request) (root_path request)))"
  using assms by (auto simp: AuthMiddleware_def forward_def split: sum.splits if_splits)

lemma removeprefix_append: "removeprefix (p @ s) p = s"
  by (simp add: removeprefix_def)

lemma MOUNT_PATH_prefix: "p \<in> set (client_page_routes page_routes) \<Longrightarrow> take 4 p = ''/gui''"
  by (auto simp: client_page_routes_def os_path_join_def MOUNT_PATH_def)

section \<open>Protected paths\<close>

text \<open>
  C1. A request whose path is among the registered page routes (under the mount path)
  and not among the public routes, made with a session whose auth_token the token check
  rejects (the check is handed None when the key is absent), is answered with a
  redirect to the URL of the login page; the request is not handed to the next stage,
  and afterwards the session's referrer_path is the requested path with the prefix
  root_path removed.
\<close>

theorem AuthMiddleware_protected_redirect:
  assumes "user_check_token auth (storage_get storage ''auth_token'' PNone) = Inr False"
    and "url_path request \<in> set (client_page_routes page_routes)"
    and "url_path request \<notin> set UNRESTRICTED_PAGE_ROUTES"
  shows "AuthMiddleware auth page_routes request storage =
           Inr (Return (RedirectResponse (url_for request login_page_name)), request,
                storage(''referrer_path'' \<mapsto>
                  PStr (removeprefix (url_path request) (root_path request))))
         \<and> (\<forall>rest. url_path request = root_path request @ rest
               \<longrightarrow> removeprefix (url_path request) (root_path request) = rest)"
  using assms by (simp add: AuthMiddleware_def forward_def removeprefix_append)

theorem AuthMiddleware_protected_redirect_witness:
  "user_check_token example_auth
     (storage_get [''auth_token'' \<mapsto> PStr ''stale''] ''auth_token'' PNone) = Inr False
   \<and> ''/gui/demo'' \<in> set (client_page_routes registered_page_routes)
   \<and> ''/gui/demo'' \<notin> set UNRESTRICTED_PAGE_ROUTES
   \<and> AuthMiddleware example_auth registered_page_routes (example_request ''/gui/demo'' [])
        [''auth_token'' \<mapsto> PStr ''stale'']
      = Inr (Return (RedirectResponse ''http://localhost:8080/gui/login''),
             example_request ''/gui/demo'' [],
             [''auth_token'' \<mapsto> PStr ''stale'', ''referrer_path'' \<mapsto> PStr ''/demo''])"
proof -
  have h1: "user_check_token example_auth
      (storage_get [''auth_token'' \<mapsto> PStr ''stale''] ''auth_token'' PNone) = Inr False"
    by (simp add: example_auth_def storage_get_def)
  have h2: "url_path (example_request ''/gui/demo'' [])
      \<in> set (client_page_routes registered_page_routes)"
    by (simp add: example_request_def client_page_routes_def registered_page_routes_def
        os_path_join_def MOUNT_PATH_def)
  have h3: "url_path (example_request ''/gui/demo'' []) \<notin> set UNRESTRICTED_PAGE_ROUTES"
    by (simp add: example_request_def UNRESTRICTED_PAGE_ROUTES_def LOGIN_PATH_def
        REGISTER_PATH_def)
  have p: "removeprefix ''/gui/demo'' ''/gui'' = ''/demo''"
    by (simp add: removeprefix_def)
  show ?thesis
    using AuthMiddleware_protected_redirect [OF h1 h2 h3] h1 h2 h3
    by (simp add: example_request_def login_page_name_def example_url_for_def p)
qed

section \<open>Public paths\<close>

text \<open>
  C2, as the code has it. A request to one of the declared public routes, /gui/login
  and /gui/register, is never answered with a redirect, whatever the session holds and
  whatever the token check says; the same holds of the path /demo, which lies outside
  the mount path. The demo page itself is registered as the page route /demo and is
  served at /gui/demo, which is a registered page route outside the public set: a
  request to it without a valid token is redirected to the login page.
\<close>

theorem AuthMiddleware_public_no_redirect:
  assumes "url_path request \<in> set UNRESTRICTED_PAGE_ROUTES \<or> url_path request = ''/demo''"
  shows "\<not> is_redirect (AuthMiddleware auth page_routes request storage)"
proof -
  have "''/demo'' \<notin> set (client_page_routes page_routes)"
    using MOUNT_PATH_prefix [of "''/demo''" page_routes] by auto
  with assms show ?thesis
    by (auto simp: is_redirect_def AuthMiddleware_def forward_def split: sum.splits)
qed

theorem AuthMiddleware_public_no_redirect_witness:
  "''/gui/login'' \<in> set UNRESTRICTED_PAGE_ROUTES
   \<and> \<not> is_redirect (AuthMiddleware example_auth registered_page_routes
          (example_request ''/gui/login'' []) Map.empty)
   \<and> AuthMiddleware example_auth registered_page_routes
          (example_request ''/gui/login'' []) Map.empty
      = Inr (Call_next, example_request ''/gui/login'' [(''authorization'', ''Bearer None'')],
             Map.empty)"
proof -
  have h: "url_path (example_request ''/gui/login'' []) \<in> set UNRESTRICTED_PAGE_ROUTES
      \<or> url_path (example_request ''/gui/login'' []) = ''/demo''"
    by (simp add: example_request_def UNRESTRICTED_PAGE_ROUTES_def LOGIN_PATH_def)
  have run: "AuthMiddleware example_auth registered_page_routes
          (example_request ''/gui/login'' []) Map.empty
      = Inr (Call_next, example_request ''/gui/login'' [(''authorization'', ''Bearer None'')],
             Map.empty)"
    by (simp add: AuthMiddleware_def forward_def example_auth_def example_request_def storage_get_def
        str_def UNRESTRICTED_PAGE_ROUTES_def LOGIN_PATH_def)
  show ?thesis
    using AuthMiddleware_public_no_redirect [OF h, of example_auth registered_page_routes Map.empty]
      run
    by (simp add: UNRESTRICTED_PAGE_ROUTES_def LOGIN_PATH_def)
qed

text \<open>The demo page, requested with no token in the session, is answered with the redirect.\<close>

theorem demo_page_redirected:
  "AuthMiddleware example_auth registered_page_routes (example_request ''/gui/demo'' [])
     Map.empty
   = Inr (Return (RedirectResponse ''http://localhost:8080/gui/login''),
          example_request ''/gui/demo'' [],
          [''referrer_path'' \<mapsto> PStr ''/demo''])
   \<and> is_redirect (AuthMiddleware example_auth registered_page_routes
        (example_request ''/gui/demo'' []) Map.empty)"
  by (simp add: AuthMiddleware_def forward_def example_auth_def example_request_def storage_get_def
      client_page_routes_def registered_page_routes_def os_path_join_def MOUNT_PATH_def
      UNRESTRICTED_PAGE_ROUTES_def LOGIN_PATH_def REGISTER_PATH_def login_page_name_def
      example_url_for_def removeprefix_def is_redirect_def)

section \<open>The header mutation\<close>

text \<open>
  C4, as the code has it. The authorization headers are replaced on every request the
  middleware hands to the next stage: every request whose token passes the check, and
  every request to a path outside the protected set, with or without a valid token. A
  request answered with the redirect keeps its headers as they came.
\<close>

theorem AuthMiddleware_header_mutation:
  assumes "AuthMiddleware auth page_routes request storage = Inr (out, request', storage')"
  shows "(out = Call_next \<longrightarrow>
            headers request' =
              filter (\<lambda>e. \<not> fst e = ''authorization'') (headers request)
              @ [(''authorization'',
                  ''Bearer '' @ str (storage_get storage ''auth_token'' PNone))])
         \<and> (out \<noteq> Call_next \<longrightarrow> request' = request)
         \<and> (user_check_token auth (storage_get storage ''auth_token'' PNone) = Inr True
              \<longrightarrow> out = Call_next)
         \<and> (url_path request \<in> set UNRESTRICTED_PAGE_ROUTES
              \<or> url_path request \<notin> set (client_page_routes page_routes)
              \<longrightarrow> out = Call_next)"
  using assms by (auto simp: AuthMiddleware_def forward_def split: sum.splits if_splits)

theorem AuthMiddleware_header_mutation_witness:
  "AuthMiddleware example_auth registered_page_routes
     (example_request ''/gui/register'' [(''authorization'', ''Basic x'')]) Map.empty
   = Inr (Call_next,
          example_request ''/gui/register'' [(''authorization'', ''Bearer None'')],
          Map.empty)
   \<and> headers (example_request ''/gui/register'' [(''authorization'', ''Bearer None'')])
     = filter (\<lambda>e. \<not> fst e = ''authorization'')
         (headers (example_request ''/gui/register'' [(''authorization'', ''Basic x'')]))
       @ [(''authorization'', ''Bearer '' @ str (storage_get Map.empty ''auth_token'' PNone))]"
proof -
  have run: "AuthMiddleware example_auth registered_page_routes
     (example_request ''/gui/register'' [(''authorization'', ''Basic x'')]) Map.empty
   = Inr (Call_next,
          example_request ''/gui/register'' [(''authorization'', ''Bearer None'')],
          Map.empty)"
    by (simp add: AuthMiddleware_def forward_def example_auth_def example_request_def storage_get_def
        str_def UNRESTRICTED_PAGE_ROUTES_def LOGIN_PATH_def REGISTER_PATH_def)
  show ?thesis
    using AuthMiddleware_header_mutation [OF run] run by simp
qed

text \<open>
  A request with an authorization header of its own, answered with the redirect: the
  header is still there and no bearer header has been added.
\<close>

theorem redirected_request_keeps_headers:
  "AuthMiddleware example_auth registered_page_routes
     (example_request ''/gui/'' [(''authorization'', ''Basic x'')]) Map.empty
   = Inr (Return (RedirectResponse ''http://localhost:8080/gui/login''),
          example_request ''/gui/'' [(''authorization'', ''Basic x'')],
          [''referrer_path'' \<mapsto> PStr ''/''])"
  by (simp add: AuthMiddleware_def forward_def example_auth_def example_request_def storage_get_def
      client_page_routes_def registered_page_routes_def os_path_join_def MOUNT_PATH_def
      UNRESTRICTED_PAGE_ROUTES_def LOGIN_PATH_def REGISTER_PATH_def login_page_name_def
      example_url_for_def removeprefix_def)

section \<open>The index page\<close>

text \<open>
  C5, as the code has it. With the session holding no token (the key absent, or None
  under it) and the token check rejecting None, a request for the home page, which the
  middleware receives as the path /gui/ (the mount path followed by the route / of the
  index page) with root_path /gui, is answered with a redirect to the URL of the login
  page, and the session's referrer_path is set to "/", the path with the root_path
  prefix removed.
\<close>

theorem index_page_redirect:
  assumes "user_check_token auth PNone = Inr False"
    and "storage_get storage ''auth_token'' PNone = PNone"
    and "''/'' \<in> set page_routes"
    and "url_path request = ''/gui/''"
    and "root_path request = ''/gui''"
  shows "AuthMiddleware auth page_routes request storage =
           Inr (Return (RedirectResponse (url_for request login_page_name)), request,
                storage(''referrer_path'' \<mapsto> PStr ''/''))"
proof -
  have "''/gui/'' \<in> set (client_page_routes page_routes)"
    using assms(3) by (force simp: client_page_routes_def os_path_join_def MOUNT_PATH_def)
  moreover have "''/gui/'' \<notin> set UNRESTRICTED_PAGE_ROUTES"
    by (simp add: UNRESTRICTED_PAGE_ROUTES_def LOGIN_PATH_def REGISTER_PATH_def)
  moreover have "removeprefix ''/gui/'' ''/gui'' = ''/''"
    by (simp add: removeprefix_def)
  ultimately show ?thesis
    using assms by (simp add: AuthMiddleware_def forward_def)
qed

theorem index_page_redirect_witness:
  "user_check_token example_auth PNone = Inr False
   \<and> storage_get [''auth_token'' \<mapsto> PNone] ''auth_token'' PNone = PNone
   \<and> ''/'' \<in> set registered_page_routes
   \<and> AuthMiddleware example_auth registered_page_routes (example_request ''/gui/'' [])
        [''auth_token'' \<mapsto> PNone]
      = Inr (Return (RedirectResponse ''http://localhost:8080/gui/login''),
             example_request ''/gui/'' [],
             [''auth_token'' \<mapsto> PNone, ''referrer_path'' \<mapsto> PStr ''/''])"
proof -
  have h1: "user_check_token example_auth PNone = Inr False"
    by (simp add: example_auth_def)
  have h2: "storage_get [''auth_token'' \<mapsto> PNone] ''auth_token'' PNone = PNone"
    by (simp add: storage_get_def)
  have h3: "''/'' \<in> set registered_page_routes"
    by (simp add: registered_page_routes_def)
  have h4: "url_path (example_request ''/gui/'' []) = ''/gui/''"
    and h5: "root_path (example_request ''/gui/'' []) = ''/gui''"
    by (simp_all add: example_request_def)
  show ?thesis
    using index_page_redirect [OF h1 h2 h3 h4 h5] h1 h2 h3
    by (simp add: example_request_def login_page_name_def example_url_for_def)
qed

text \<open>
  The home page requested with auth_token None: the redirect is given, and the
  referrer_path written is "/", not "/gui".
\<close>

theorem home_page_referrer_path:
  "AuthMiddleware example_auth registered_page_routes (example_request ''/gui/'' [])
     [''auth_token'' \<mapsto> PNone]
   = Inr (Return (RedirectResponse ''http://localhost:8080/gui/login''),
          example_request ''/gui/'' [],
          [''auth_token'' \<mapsto> PNone, ''referrer_path'' \<mapsto> PStr ''/''])
   \<and> [''auth_token'' \<mapsto> PNone, ''referrer_path'' \<mapsto> PStr ''/''] ''referrer_path''
       \<noteq> Some (PStr ''/gui'')"
  by (simp add: AuthMiddleware_def forward_def example_auth_def example_request_def
      storage_get_def client_page_routes_def registered_page_routes_def os_path_join_def
      MOUNT_PATH_def UNRESTRICTED_PAGE_ROUTES_def LOGIN_PATH_def REGISTER_PATH_def
      login_page_name_def example_url_for_def removeprefix_def)

section \<open>A failing token check\<close>




section \<open>What the middleware writes to the session\<close>

text \<open>
  C10. The middleware never writes auth_token; the only key of the session it writes is
  referrer_path, and it writes it only when it answers with the redirect, that is for a
  request to a protected path whose token the check rejects. On every request it hands
  to the next stage the session is left as it was.
\<close>

theorem AuthMiddleware_session_frame:
  assumes "AuthMiddleware auth page_routes request storage = Inr (out, request', storage')"
  shows "storage' ''auth_token'' = storage ''auth_token''
         \<and> (\<forall>k. k \<noteq> ''referrer_path'' \<longrightarrow> storage' k = storage k)
         \<and> (out = Call_next \<longrightarrow> storage' = storage)
         \<and> (storage' \<noteq> storage \<longrightarrow>
              out = Return (RedirectResponse (url_for request login_page_name))
              \<and> user_check_token auth (storage_get storage ''auth_token'' PNone) = Inr False
              \<and> url_path request \<in> set (client_page_routes page_routes)
              \<and> url_path request \<notin> set UNRESTRICTED_PAGE_ROUTES)"
proof (cases out)
  case (Return resp)
  from AuthMiddleware_Return [OF assms [unfolded Return]] Return
  show ?thesis by simp
next
  case Call_next
  from AuthMiddleware_Call_next(2) [OF assms [unfolded Call_next]] Call_next
  show ?thesis by simp
qed

theorem AuthMiddleware_session_frame_witness:
  "AuthMiddleware example_auth registered_page_routes (example_request ''/gui/'' [])
     [''auth_token'' \<mapsto> PStr ''stale'', ''dark_mode'' \<mapsto> PStr ''on'']
   = Inr (Return (RedirectResponse ''http://localhost:8080/gui/login''),
          example_request ''/gui/'' [],
          [''auth_token'' \<mapsto> PStr ''stale'', ''dark_mode'' \<mapsto> PStr ''on'',
           ''referrer_path'' \<mapsto> PStr ''/''])
   \<and> [''auth_token'' \<mapsto> PStr ''stale'', ''dark_mode'' \<mapsto> PStr ''on'',
       ''referrer_path'' \<mapsto> PStr ''/''] ''auth_token''
     = [''auth_token'' \<mapsto> PStr ''stale'', ''dark_mode'' \<mapsto> PStr ''on''] ''auth_token''
   \<and> [''auth_token'' \<mapsto> PStr ''stale'', ''dark_mode'' \<mapsto> PStr ''on'',
       ''referrer_path'' \<mapsto> PStr ''/''] ''dark_mode''
     = [''auth_token'' \<mapsto> PStr ''stale'', ''dark_mode'' \<mapsto> PStr ''on''] ''dark_mode''"
proof -
  have run: "AuthMiddleware example_auth registered_page_routes (example_request ''/gui/'' [])
     [''auth_token'' \<mapsto> PStr ''stale'', ''dark_mode'' \<mapsto> PStr ''on'']
   = Inr (Return (RedirectResponse ''http://localhost:8080/gui/login''),
          example_request ''/gui/'' [],
          [''auth_token'' \<mapsto> PStr ''stale'', ''dark_mode'' \<mapsto> PStr ''on'',
           ''referrer_path'' \<mapsto> PStr ''/''])"
    by (simp add: AuthMiddleware_def forward_def example_auth_def example_request_def storage_get_def
        client_page_routes_def registered_page_routes_def os_path_join_def MOUNT_PATH_def
        UNRESTRICTED_PAGE_ROUTES_def LOGIN_PATH_def REGISTER_PATH_def login_page_name_def
        example_url_for_def removeprefix_def)
  from AuthMiddleware_session_frame [OF run]
  have "[''auth_token'' \<mapsto> PStr ''stale'', ''dark_mode'' \<mapsto> PStr ''on'',
         ''referrer_path'' \<mapsto> PStr ''/''] ''auth_token''
     = [''auth_token'' \<mapsto> PStr ''stale'', ''dark_mode'' \<mapsto> PStr ''on''] ''auth_token''"
    and "\<forall>k. k \<noteq> ''referrer_path'' \<longrightarrow>
       [''auth_token'' \<mapsto> PStr ''stale'', ''dark_mode'' \<mapsto> PStr ''on'',
        ''referrer_path'' \<mapsto> PStr ''/''] k
     = [''auth_token'' \<mapsto> PStr ''stale'', ''dark_mode'' \<mapsto> PStr ''on''] k"
    by (rule conjunct1, rule conjunct1 [OF conjunct2])
  then show ?thesis
    using run by simp
qed

section \<open>Login and registration\<close>

lemma store_token_referrer_None:
  "store_token ''tok1'' [''referrer_path'' \<mapsto> PNone]
   = Inl (Exception ''Invalid target type: <class 'NoneType'>'',
          [''referrer_path'' \<mapsto> PNone, ''auth_token'' \<mapsto> PStr ''tok1''])"
  by (simp add: store_token_def navigate_to_def storage_get_def)

text \<open>
  C6. When the token check accepts the session's stored token as the login page loads,
  the page function returns a redirect to the home page, /gui, and has created none of
  the elements of the login form.
\<close>

theorem login_page_valid_token:
  assumes "user_check_token auth (storage_get storage ''auth_token'' PNone) = Inr True"
  shows "login_page auth storage = Inr (Some (RedirectResponse ''/gui''), [])"
  using assms by (simp add: login_page_def INDEX_PATH_def)

theorem login_page_valid_token_witness:
  "user_check_token example_auth
     (storage_get [''auth_token'' \<mapsto> PStr ''tok1''] ''auth_token'' PNone) = Inr True
   \<and> login_page example_auth [''auth_token'' \<mapsto> PStr ''tok1'']
     = Inr (Some (RedirectResponse ''/gui''), [])"
proof -
  have h: "user_check_token example_auth
     (storage_get [''auth_token'' \<mapsto> PStr ''tok1''] ''auth_token'' PNone) = Inr True"
    by (simp add: example_auth_def storage_get_def)
  show ?thesis
    using login_page_valid_token [OF h] h by simp
qed

text \<open>
  C7. When a login attempt fails, because authenticate returns no user or because
  create_token returns no token for the user, the handler returns normally, notifies
  the user that email or password is wrong, and leaves the session storage exactly as
  it was.
\<close>

theorem try_login_failure:
  assumes "user_authenticate auth email password = Inr None
           \<or> (\<exists>u. user_authenticate auth email password = Inr (Some u)
                  \<and> user_create_token auth u = Inr None)"
  shows "try_login auth email password storage =
           Inr ([Notify ''email or password wrong!'' (Some ''negative'')], storage)"
  using assms by (auto simp: try_login_def token_of_user_def)

theorem try_login_failure_witness:
  "user_authenticate example_auth ''a@b.c'' ''guess'' = Inr None
   \<and> try_login example_auth ''a@b.c'' ''guess'' [''referrer_path'' \<mapsto> PStr ''/'']
     = Inr ([Notify ''email or password wrong!'' (Some ''negative'')],
            [''referrer_path'' \<mapsto> PStr ''/''])"
proof -
  have h: "user_authenticate example_auth ''a@b.c'' ''guess'' = Inr None"
    by (simp add: example_auth_def)
  then have "user_authenticate example_auth ''a@b.c'' ''guess'' = Inr None
      \<or> (\<exists>u. user_authenticate example_auth ''a@b.c'' ''guess'' = Inr (Some u)
             \<and> user_create_token example_auth u = Inr None)"
    by simp
  from try_login_failure [OF this] h show ?thesis
    by simp
qed

text \<open>
  C8. When create_user raises during a registration, the handler returns normally,
  shows the text of the exception to the user, and leaves the session storage exactly
  as it was; the Auth Service is not asked for a token (whatever create_token would do,
  the outcome is the same), so none is created and none is stored.
\<close>

theorem try_register_exception:
  assumes "user_create auth email password = Inl e"
  shows "try_register auth email password storage = Inr ([Notify (exn_str e) None], storage)
         \<and> (\<forall>create_token.
               try_register (auth\<lparr>user_create_token := create_token\<rparr>) email password storage
               = try_register auth email password storage)"
  using assms by (simp add: try_register_def)

theorem try_register_exception_witness:
  "user_create example_auth ''a@b.c'' ''pw2''
     = Inl (Exception ''REGISTER_USER_ALREADY_EXISTS'')
   \<and> try_register example_auth ''a@b.c'' ''pw2'' Map.empty
     = Inr ([Notify ''REGISTER_USER_ALREADY_EXISTS'' None], Map.empty)"
proof -
  have h: "user_create example_auth ''a@b.c'' ''pw2''
     = Inl (Exception ''REGISTER_USER_ALREADY_EXISTS'')"
    by (simp add: example_auth_def)
  from try_register_exception [OF h] h show ?thesis
    by (simp add: exn_str_def)
qed

end
